theory Spec2Isabelle
  imports Main
begin

section \<open>The map function of the view jobStatusByWorkflowAndSite\<close>

text \<open>
  The source is \<^verbatim>\<open>src/couchapps/JobDump/views/jobStatusByWorkflowAndSite/map.js\<close>: one
  anonymous JavaScript function of a document, with the nested function
  \<^verbatim>\<open>statusMap\<close> that closes over the document and over the loop variable
  \<^verbatim>\<open>lastStateIndex\<close>.
\<close>

subsection \<open>Documents\<close>

text \<open>
  A state transition has the three fields the function reads. They hold strings.
\<close>

record transition =
  oldstate :: string
  newstate :: string
  location :: string

text \<open>
  \<^verbatim>\<open>doc['states']\<close> is an object whose own enumerable keys are stringified
  indices (a JavaScript array, or a JSON object keyed \<^verbatim>\<open>"0"\<close>, \<^verbatim>\<open>"1"\<close>, ...).
  It is modelled as the list of its properties, each key once, in the order in which
  \<^verbatim>\<open>for (k in doc['states'])\<close> enumerates them: the key is kept as the number
  it denotes. The enumeration order belongs to the input, since the function leaves it
  to the interpreter (lines 76 and 77 of the source).
\<close>

type_synonym states_obj = "(nat \<times> transition) list"

record doc =
  type :: string
  workflow :: string
  states :: states_obj

text \<open>
  A JavaScript array of transitions: the keys are the positions \<open>0, 1, ...\<close>, and
  they are enumerated in ascending order.
\<close>

definition array :: "transition list \<Rightarrow> states_obj" where
  "array ts = zip [0..<length ts] ts"

text \<open>
  The property read \<^verbatim>\<open>doc['states'][i]\<close> for a number \<open>i\<close>: the entry under
  that key, or \<^verbatim>\<open>undefined\<close> (here \<open>None\<close>) when there is none. No key is
  negative, so a negative index reads \<^verbatim>\<open>undefined\<close>.
\<close>

definition states_at :: "states_obj \<Rightarrow> int \<Rightarrow> transition option" where
  "states_at sts i = (if i < 0 then None else map_of sts (nat i))"

subsection \<open>Errors\<close>

text \<open>
  What aborts the function: \<open>InvalidTransition\<close> is the statement
  \<^verbatim>\<open>throw "not valid transition"\<close>; \<open>TypeError\<close> is what the interpreter throws
  when a field of \<^verbatim>\<open>undefined\<close> is read. \<open>EmptyHistory\<close> and
  \<open>InsufficientHistory\<close> are the two further error kinds that the specification
  names; no statement of the source throws them.
\<close>

datatype error = InvalidTransition | TypeError | EmptyHistory | InsufficientHistory

subsection \<open>statusMap\<close>

text \<open>
  Lines 3 to 65. The \<^verbatim>\<open>switch\<close> compares \<^verbatim>\<open>newstate\<close> of the entry at
  \<^verbatim>\<open>lastStateIndex\<close> with the case labels in order; the branches for
  \<^verbatim>\<open>executing\<close> and for \<^verbatim>\<open>cleanout\<close> after \<^verbatim>\<open>exhausted\<close> read the
  entry at \<^verbatim>\<open>lastStateIndex - 1\<close>. Reading a field of an absent entry throws.
\<close>

definition statusMap :: "states_obj \<Rightarrow> nat \<Rightarrow> error + string" where
  "statusMap sts lastStateIndex =
    (case states_at sts (int lastStateIndex) of
      None \<Rightarrow> Inl TypeError
    | Some cur \<Rightarrow>
        if newstate cur = ''created'' then
          (if oldstate cur = ''new'' then Inr ''queued_first''
           else if oldstate cur = ''jobcooloff'' then Inr ''queued_retry''
           else Inl InvalidTransition)
        else if newstate cur = ''jobcooloff'' then Inr ''cooloff''
        else if newstate cur = ''executing'' then
          (case states_at sts (int lastStateIndex - 1) of
            None \<Rightarrow> Inl TypeError
          | Some prev \<Rightarrow>
              if oldstate prev = ''new'' then Inr ''submitted_first''
              else if oldstate prev = ''jobcooloff'' then Inr ''submitted_retry''
              else Inl InvalidTransition)
        else if newstate cur = ''success'' then Inr ''success''
        else if newstate cur = ''exhausted'' then
          (if oldstate cur = ''jobfailed'' then Inr ''failure_exception''
           else if oldstate cur = ''submitfailed'' then Inr ''failure_submit''
           else if oldstate cur = ''createfailed'' then Inr ''failure_create''
           else Inl InvalidTransition)
        else if newstate cur = ''killed'' then Inr ''canceled''
        else if newstate cur = ''cleanout'' then
          (if oldstate cur = ''success'' then Inr ''success''
           else if oldstate cur = ''exhausted'' then
             (case states_at sts (int lastStateIndex - 1) of
               None \<Rightarrow> Inl TypeError
             | Some prev \<Rightarrow>
                 if oldstate prev = ''jobfailed'' then Inr ''failure_exception''
                 else if oldstate prev = ''submitfailed'' then Inr ''failure_submit''
                 else if oldstate prev = ''createfailed'' then Inr ''failure_create''
                 else Inl InvalidTransition)
           else Inl InvalidTransition)
        else Inr ''transition'')"

subsection \<open>The loop over the states\<close>

text \<open>
  The variables of lines 68 to 70; \<^verbatim>\<open>null\<close> is \<open>None\<close>.
\<close>

record vars =
  lastStateIndex :: nat
  tmpSite :: "string option"
  siteLocation :: "string option"

definition init_vars :: vars where
  "init_vars = \<lparr>lastStateIndex = 0, tmpSite = None, siteLocation = None\<rparr>"

text \<open>
  Lines 78 to 83: every enumerated key is assigned to \<^verbatim>\<open>lastStateIndex\<close>, the
  location under it to \<^verbatim>\<open>tmpSite\<close>, and to \<^verbatim>\<open>siteLocation\<close> too unless it is
  \<^verbatim>\<open>"Agent"\<close>.
\<close>

fun for_in :: "states_obj \<Rightarrow> vars \<Rightarrow> vars" where
  "for_in [] v = v"
| "for_in ((k, t) # rest) v =
     for_in rest
       \<lparr>lastStateIndex = k,
        tmpSite = Some (location t),
        siteLocation = (if location t \<noteq> ''Agent'' then Some (location t) else siteLocation v)\<rparr>"

text \<open>
  Lines 84 to 87: the fallback to the location seen last.
\<close>

definition site_fallback :: "vars \<Rightarrow> string option" where
  "site_fallback v = (if siteLocation v = None then tmpSite v else siteLocation v)"

subsection \<open>The function of the document\<close>

text \<open>
  An emitted row is the key \<^verbatim>\<open>[workflow, status, siteLocation]\<close> with its count.
  The function returns what it threw, if anything, and the rows it emitted before.
  The arguments of \<^verbatim>\<open>emit\<close> are evaluated before the call, and
  \<^verbatim>\<open>statusMap()\<close> is one of them (line 89).
\<close>

type_synonym row = "(string \<times> string \<times> string option) \<times> nat"

definition map_doc :: "doc \<Rightarrow> error option \<times> row list" where
  "map_doc d =
    (if type d = ''job'' then
       (let v = for_in (states d) init_vars;
            site = site_fallback v
        in case statusMap (states d) (lastStateIndex v) of
             Inl e \<Rightarrow> (Some e, [])
           | Inr status \<Rightarrow> (None, [((workflow d, status, site), 1)]))
     else (None, []))"

text \<open>
  The two parts of the key that the function computes, named: the status that line 89
  obtains from \<^verbatim>\<open>statusMap()\<close> after the loop, and the site after line 87.
\<close>

definition status_of :: "states_obj \<Rightarrow> error + string" where
  "status_of sts = statusMap sts (lastStateIndex (for_in sts init_vars))"

definition site_of :: "states_obj \<Rightarrow> string option" where
  "site_of sts = site_fallback (for_in sts init_vars)"

subsection \<open>A document whose keys are enumerated in lexicographic order\<close>

text \<open>
  A job that ran twice and waits for its third submission: eleven transitions, at the
  positions 0 to 10.
\<close>

definition retried_history :: "transition list" where
  "retried_history =
    [\<lparr>oldstate = ''new'', newstate = ''created'', location = ''Agent''\<rparr>,
     \<lparr>oldstate = ''created'', newstate = ''executing'', location = ''siteA''\<rparr>,
     \<lparr>oldstate = ''executing'', newstate = ''complete'', location = ''siteA''\<rparr>,
     \<lparr>oldstate = ''complete'', newstate = ''jobfailed'', location = ''siteA''\<rparr>,
     \<lparr>oldstate = ''jobfailed'', newstate = ''jobcooloff'', location = ''Agent''\<rparr>,
     \<lparr>oldstate = ''jobcooloff'', newstate = ''created'', location = ''Agent''\<rparr>,
     \<lparr>oldstate = ''created'', newstate = ''executing'', location = ''siteA''\<rparr>,
     \<lparr>oldstate = ''executing'', newstate = ''complete'', location = ''siteA''\<rparr>,
     \<lparr>oldstate = ''complete'', newstate = ''jobfailed'', location = ''siteA''\<rparr>,
     \<lparr>oldstate = ''jobfailed'', newstate = ''jobcooloff'', location = ''Agent''\<rparr>,
     \<lparr>oldstate = ''jobcooloff'', newstate = ''created'', location = ''Agent''\<rparr>]"

text \<open>
  The same eleven properties stored under the keys \<^verbatim>\<open>"0"\<close> to \<^verbatim>\<open>"10"\<close> of a
  JSON object and enumerated in the lexicographic order of the keys, where
  \<^verbatim>\<open>"10"\<close> comes before \<^verbatim>\<open>"2"\<close>.
\<close>

definition keys_lexicographic :: states_obj where
  "keys_lexicographic =
     map (\<lambda>k. (k, retried_history ! k)) [0, 1, 10, 2, 3, 4, 5, 6, 7, 8, 9]"

section \<open>Properties\<close>

subsection \<open>What the loop leaves in its variables\<close>

lemma for_in_lastStateIndex:
  "lastStateIndex (for_in sts v) = (if sts = [] then lastStateIndex v else fst (last sts))"
  by (induction sts v rule: for_in.induct) auto

lemma for_in_tmpSite:
  "tmpSite (for_in sts v) = (if sts = [] then tmpSite v else Some (location (snd (last sts))))"
  by (induction sts v rule: for_in.induct) auto

lemma for_in_siteLocation:
  "siteLocation (for_in sts v) =
     (let ls = filter (\<lambda>l. l \<noteq> ''Agent'') (map (location \<circ> snd) sts)
      in if ls = [] then siteLocation v else Some (last ls))"
  by (induction sts v rule: for_in.induct) (auto simp: Let_def)

lemma last_array: "ts \<noteq> [] \<Longrightarrow> last (array ts) = (length ts - 1, last ts)"
  unfolding array_def
  by (induction ts rule: rev_induct) auto

lemma array_eq_Nil [simp]: "array ts = [] \<longleftrightarrow> ts = []"
  by (cases ts) (auto simp: array_def upt_conv_Cons simp del: upt_Suc)

lemma map_snd_array [simp]: "map snd (array ts) = ts"
  by (simp add: array_def)

lemma states_at_array:
  "states_at (array ts) i = (if 0 \<le> i \<and> i < int (length ts) then Some (ts ! nat i) else None)"
proof (cases "0 \<le> i \<and> i < int (length ts)")
  case True
  then have k: "nat i < length ts" by linarith
  have "map_of (zip [0..<length ts] ts) ([0..<length ts] ! nat i) = Some (ts ! nat i)"
    by (rule map_of_zip_nth) (use k in simp_all)
  with True k show ?thesis by (simp add: states_at_def array_def)
next
  case False
  then have "i < 0 \<or> nat i \<notin> set [0..<length ts]" by auto
  then show ?thesis
    using False map_of_zip_is_None [of "[0..<length ts]" ts "nat i"]
    by (auto simp: states_at_def array_def)
qed

lemma lastStateIndex_array:
  "lastStateIndex (for_in (array ts) init_vars) = length ts - 1"
  by (cases "ts = []") (simp_all add: for_in_lastStateIndex last_array init_vars_def)

lemma site_of_array:
  assumes "ts \<noteq> []"
  shows "site_of (array ts) =
     Some (if \<forall>t \<in> set ts. location t = ''Agent'' then ''Agent''
           else location (last (filter (\<lambda>t. location t \<noteq> ''Agent'') ts)))"
proof (cases "\<forall>t \<in> set ts. location t = ''Agent''")
  case True
  then have "filter (\<lambda>l. l \<noteq> ''Agent'') (map (location \<circ> snd) (array ts)) = []"
    by (auto simp: filter_empty_conv dest: set_zip_rightD simp: array_def)
  moreover have "location (last ts) = ''Agent''"
    using True assms by simp
  ultimately show ?thesis
    using True assms
    by (simp add: site_of_def site_fallback_def for_in_siteLocation for_in_tmpSite
        last_array init_vars_def)
next
  case False
  have m: "map (location \<circ> snd) (array ts) = map location ts"
    by (simp flip: map_map)
  have f: "filter (\<lambda>l. l \<noteq> ''Agent'') (map location ts) =
      map location (filter (\<lambda>t. location t \<noteq> ''Agent'') ts)"
    by (simp add: filter_map comp_def)
  from False have ne: "filter (\<lambda>t. location t \<noteq> ''Agent'') ts \<noteq> []"
    by (auto simp: filter_empty_conv)
  from False have "\<not> (\<forall>t \<in> set ts. location t = ''Agent'')" .
  then show ?thesis
    using ne
    by (auto simp add: site_of_def site_fallback_def for_in_siteLocation m f last_map init_vars_def)
qed

lemma status_of_array:
  "status_of (array ts) = statusMap (array ts) (length ts - 1)"
  by (simp add: status_of_def lastStateIndex_array)

lemma last_entry_array:
  "ts \<noteq> [] \<Longrightarrow> states_at (array ts) (int (length ts - 1)) = Some (last ts)"
  by (simp add: states_at_array last_conv_nth)

lemma prev_entry_array:
  "states_at (array ts) (int (length ts - 1) - 1) =
     (if 2 \<le> length ts then Some (ts ! (length ts - 2)) else None)"
proof (cases "2 \<le> length ts")
  case True
  then have e: "int (length ts - 1) - 1 = int (length ts - 2)" by linarith
  have n: "nat (int (length ts) - 2) = length ts - 2" by linarith
  from True show ?thesis unfolding e by (simp add: states_at_array n)
next
  case False
  then have "int (length ts - 1) - 1 < 0" by linarith
  with False show ?thesis by (simp add: states_at_array)
qed

lemma array_conv_map: "array ts = map (\<lambda>k. (k, ts ! k)) [0..<length ts]"
  unfolding array_def
proof (rule nth_equalityI)
  show "length (zip [0..<length ts] ts) = length (map (\<lambda>k. (k, ts ! k)) [0..<length ts])"
    by simp
next
  fix i
  assume "i < length (zip [0..<length ts] ts)"
  then have "i < length ts" by simp
  then show "zip [0..<length ts] ts ! i = map (\<lambda>k. (k, ts ! k)) [0..<length ts] ! i"
    by simp
qed

subsection \<open>Which transition is read as the last one\<close>

text \<open>
  Claim C1: the transition used as the last one is the one at the highest numeric
  position, also when the states are stored under stringified indices, and never the
  one that merely comes last in the enumeration of the keys.

  The function does not do this. For the object \<open>keys_lexicographic\<close>, which has the
  same properties as the array \<open>retried_history\<close>, the greatest key is 10, but the
  loop leaves 9 in \<^verbatim>\<open>lastStateIndex\<close>: the emitted status is \<^verbatim>\<open>cooloff\<close>, read from
  the entry 9, where the entry 10 gives \<^verbatim>\<open>queued_retry\<close>, which is also what the
  function emits when the same properties are enumerated in ascending order.
\<close>

theorem lexicographic_keys_misplace_last_transition:
  "set keys_lexicographic = set (array retried_history)
   \<and> Max (fst ` set keys_lexicographic) = 10
   \<and> lastStateIndex (for_in keys_lexicographic init_vars) = 9
   \<and> map_doc \<lparr>type = ''job'', workflow = ''wf'', states = keys_lexicographic\<rparr>
       = (None, [((''wf'', ''cooloff'', Some ''siteA''), 1)])
   \<and> statusMap keys_lexicographic 10 = Inr ''queued_retry''
   \<and> map_doc \<lparr>type = ''job'', workflow = ''wf'', states = array retried_history\<rparr>
       = (None, [((''wf'', ''queued_retry'', Some ''siteA''), 1)])"
proof -
  have k: "keys_lexicographic =
    [(0, retried_history ! 0), (1, retried_history ! 1), (10, retried_history ! 10),
     (2, retried_history ! 2), (3, retried_history ! 3), (4, retried_history ! 4),
     (5, retried_history ! 5), (6, retried_history ! 6), (7, retried_history ! 7),
     (8, retried_history ! 8), (9, retried_history ! 9)]"
    by (simp add: keys_lexicographic_def)
  have "array retried_history = map (\<lambda>k. (k, retried_history ! k)) [0..<length retried_history]"
    by (rule array_conv_map)
  moreover have "length retried_history = 11" by (simp add: retried_history_def)
  ultimately have a: "array retried_history = map (\<lambda>k. (k, retried_history ! k)) [0..<11]"
    by simp
  have u: "[0..<11] = [0, 1, 2, 3, 4, 5, 6, 7, 8, 9, 10::nat]"
    by (simp add: upt_rec)
  have 1: "set keys_lexicographic = set (array retried_history)"
    unfolding a u k by auto
  have 2: "Max (fst ` set keys_lexicographic) = 10"
    unfolding k by simp
  have 3: "lastStateIndex (for_in keys_lexicographic init_vars) = 9"
    unfolding k by (simp add: init_vars_def)
  have 4: "map_doc \<lparr>type = ''job'', workflow = ''wf'', states = keys_lexicographic\<rparr>
       = (None, [((''wf'', ''cooloff'', Some ''siteA''), 1)])"
    unfolding map_doc_def k
    by (simp add: init_vars_def site_fallback_def statusMap_def states_at_def retried_history_def)
  have 5: "statusMap keys_lexicographic 10 = Inr ''queued_retry''"
    unfolding k by (simp add: statusMap_def states_at_def retried_history_def)
  have 6: "map_doc \<lparr>type = ''job'', workflow = ''wf'', states = array retried_history\<rparr>
       = (None, [((''wf'', ''queued_retry'', Some ''siteA''), 1)])"
    unfolding map_doc_def a u
    by (simp add: init_vars_def site_fallback_def statusMap_def states_at_def retried_history_def)
  from 1 2 3 4 5 6 show ?thesis by blast
qed

subsection \<open>The function in terms of its status and its site\<close>

lemma map_doc_job:
  "type d = ''job'' \<Longrightarrow> map_doc d =
     (case status_of (states d) of
        Inl e \<Rightarrow> (Some e, [])
      | Inr status \<Rightarrow> (None, [((workflow d, status, site_of (states d)), 1)]))"
  by (simp add: map_doc_def status_of_def site_of_def Let_def split: sum.splits)

lemma status_of_last:
  assumes "ts \<noteq> []"
  shows "status_of (array ts) =
    (if newstate (last ts) = ''created'' then
       (if oldstate (last ts) = ''new'' then Inr ''queued_first''
        else if oldstate (last ts) = ''jobcooloff'' then Inr ''queued_retry''
        else Inl InvalidTransition)
     else if newstate (last ts) = ''jobcooloff'' then Inr ''cooloff''
     else if newstate (last ts) = ''executing'' then
       (if length ts < 2 then Inl TypeError
        else if oldstate (ts ! (length ts - 2)) = ''new'' then Inr ''submitted_first''
        else if oldstate (ts ! (length ts - 2)) = ''jobcooloff'' then Inr ''submitted_retry''
        else Inl InvalidTransition)
     else if newstate (last ts) = ''success'' then Inr ''success''
     else if newstate (last ts) = ''exhausted'' then
       (if oldstate (last ts) = ''jobfailed'' then Inr ''failure_exception''
        else if oldstate (last ts) = ''submitfailed'' then Inr ''failure_submit''
        else if oldstate (last ts) = ''createfailed'' then Inr ''failure_create''
        else Inl InvalidTransition)
     else if newstate (last ts) = ''killed'' then Inr ''canceled''
     else if newstate (last ts) = ''cleanout'' then
       (if oldstate (last ts) = ''success'' then Inr ''success''
        else if oldstate (last ts) = ''exhausted'' then
          (if length ts < 2 then Inl TypeError
           else if oldstate (ts ! (length ts - 2)) = ''jobfailed'' then Inr ''failure_exception''
           else if oldstate (ts ! (length ts - 2)) = ''submitfailed'' then Inr ''failure_submit''
           else if oldstate (ts ! (length ts - 2)) = ''createfailed'' then Inr ''failure_create''
           else Inl InvalidTransition)
        else Inl InvalidTransition)
     else Inr ''transition'')"
  unfolding status_of_array statusMap_def last_entry_array [OF assms] prev_entry_array
  by simp

lemma status_of_executing:
  assumes "2 \<le> length ts" and "newstate (last ts) = ''executing''"
  shows "status_of (array ts) =
      (if oldstate (ts ! (length ts - 2)) = ''new'' then Inr ''submitted_first''
       else if oldstate (ts ! (length ts - 2)) = ''jobcooloff'' then Inr ''submitted_retry''
       else Inl InvalidTransition)"
proof -
  from assms have "ts \<noteq> []" by auto
  then show ?thesis using assms by (simp add: status_of_last)
qed

lemma status_of_cleanout_exhausted:
  assumes "2 \<le> length ts" and "newstate (last ts) = ''cleanout''"
    and "oldstate (last ts) = ''exhausted''"
  shows "status_of (array ts) =
      (if oldstate (ts ! (length ts - 2)) = ''jobfailed'' then Inr ''failure_exception''
       else if oldstate (ts ! (length ts - 2)) = ''submitfailed'' then Inr ''failure_submit''
       else if oldstate (ts ! (length ts - 2)) = ''createfailed'' then Inr ''failure_create''
       else Inl InvalidTransition)"
proof -
  from assms have "ts \<noteq> []" by auto
  then show ?thesis using assms by (simp add: status_of_last)
qed

subsection \<open>The site\<close>

text \<open>
  Claim C2: for a job document with a non-empty sequence of states, the emitted site
  is the location of the last transition, by position, whose location is not
  \<^verbatim>\<open>"Agent"\<close>, and \<^verbatim>\<open>"Agent"\<close> if every location is. The sequence is an
  array \<open>ts\<close>; a row is emitted when \<^verbatim>\<open>statusMap\<close> returns a status.
\<close>

theorem emitted_site_is_last_non_Agent:
  assumes "type d = ''job''" and "states d = array ts" and "ts \<noteq> []"
    and "status_of (states d) = Inr status"
  shows "map_doc d =
     (None, [((workflow d, status,
        Some (if \<forall>t \<in> set ts. location t = ''Agent'' then ''Agent''
              else location (last (filter (\<lambda>t. location t \<noteq> ''Agent'') ts)))), 1)])"
  using assms by (simp add: map_doc_job site_of_array)

text \<open>
  The locations \<^verbatim>\<open>[Agent, siteA, Agent, siteB, Agent]\<close> give \<^verbatim>\<open>siteB\<close>, and
  \<^verbatim>\<open>[Agent, Agent]\<close> give \<^verbatim>\<open>Agent\<close>.
\<close>

theorem emitted_site_is_last_non_Agent_witness:
  "map_doc \<lparr>type = ''job'', workflow = ''wf'', states = array
      [\<lparr>oldstate = ''new'', newstate = ''created'', location = ''Agent''\<rparr>,
       \<lparr>oldstate = ''created'', newstate = ''executing'', location = ''siteA''\<rparr>,
       \<lparr>oldstate = ''executing'', newstate = ''jobfailed'', location = ''Agent''\<rparr>,
       \<lparr>oldstate = ''created'', newstate = ''executing'', location = ''siteB''\<rparr>,
       \<lparr>oldstate = ''executing'', newstate = ''success'', location = ''Agent''\<rparr>]\<rparr>
     = (None, [((''wf'', ''success'', Some ''siteB''), 1)])
   \<and> map_doc \<lparr>type = ''job'', workflow = ''wf'', states = array
      [\<lparr>oldstate = ''new'', newstate = ''created'', location = ''Agent''\<rparr>,
       \<lparr>oldstate = ''created'', newstate = ''killed'', location = ''Agent''\<rparr>]\<rparr>
     = (None, [((''wf'', ''canceled'', Some ''Agent''), 1)])"
proof -
  let ?ts = "[\<lparr>oldstate = ''new'', newstate = ''created'', location = ''Agent''\<rparr>,
       \<lparr>oldstate = ''created'', newstate = ''executing'', location = ''siteA''\<rparr>,
       \<lparr>oldstate = ''executing'', newstate = ''jobfailed'', location = ''Agent''\<rparr>,
       \<lparr>oldstate = ''created'', newstate = ''executing'', location = ''siteB''\<rparr>,
       \<lparr>oldstate = ''executing'', newstate = ''success'', location = ''Agent''\<rparr>]"
  let ?us = "[\<lparr>oldstate = ''new'', newstate = ''created'', location = ''Agent''\<rparr>,
       \<lparr>oldstate = ''created'', newstate = ''killed'', location = ''Agent''\<rparr>]"
  have s1: "status_of (array ?ts) = Inr ''success''"
    by (simp add: status_of_array statusMap_def states_at_array)
  have s2: "status_of (array ?us) = Inr ''canceled''"
    by (simp add: status_of_array statusMap_def states_at_array)
  show ?thesis
    using emitted_site_is_last_non_Agent
      [of "\<lparr>type = ''job'', workflow = ''wf'', states = array ?ts\<rparr>" ?ts "''success''"]
      emitted_site_is_last_non_Agent
      [of "\<lparr>type = ''job'', workflow = ''wf'', states = array ?us\<rparr>" ?us "''canceled''"]
      s1 s2
    by simp
qed

subsection \<open>The status\<close>

text \<open>
  Claim C3 says: when the last transition enters \<^verbatim>\<open>exhausted\<close>, its own
  \<^verbatim>\<open>oldstate\<close> selects \<^verbatim>\<open>failure_exception\<close>, \<^verbatim>\<open>failure_submit\<close> or
  \<^verbatim>\<open>failure_create\<close>, and any other value raises the invalid-transition error;
  when it enters \<^verbatim>\<open>cleanout\<close> from \<^verbatim>\<open>exhausted\<close>, the same mapping is
  applied to the \<^verbatim>\<open>oldstate\<close> of the second-to-last transition; \<^verbatim>\<open>cleanout\<close>
  from \<^verbatim>\<open>success\<close> is \<^verbatim>\<open>success\<close>, and \<^verbatim>\<open>cleanout\<close> from anything else
  raises the invalid-transition error.

  The part on \<^verbatim>\<open>cleanout\<close> from \<^verbatim>\<open>exhausted\<close> is stated for every history, and it
  fails on a history of one transition: there is no second-to-last transition,
  \<^verbatim>\<open>doc['states'][-1]\<close> is \<^verbatim>\<open>undefined\<close>, and the read of its \<^verbatim>\<open>oldstate\<close>
  (line 48) throws a \<open>TypeError\<close>, which is none of the three statuses and not the
  invalid-transition error.
\<close>

theorem single_cleanout_counterexample:
  "status_of (array
      [\<lparr>oldstate = ''exhausted'', newstate = ''cleanout'', location = ''Agent''\<rparr>])
     = Inl TypeError
   \<and> status_of (array
      [\<lparr>oldstate = ''exhausted'', newstate = ''cleanout'', location = ''Agent''\<rparr>])
     \<notin> {Inr ''failure_exception'', Inr ''failure_submit'', Inr ''failure_create'',
         Inl InvalidTransition}
   \<and> map_doc \<lparr>type = ''job'', workflow = ''wf'', states = array
      [\<lparr>oldstate = ''exhausted'', newstate = ''cleanout'', location = ''Agent''\<rparr>]\<rparr>
     = (Some TypeError, [])"
proof -
  have s: "status_of (array
      [\<lparr>oldstate = ''exhausted'', newstate = ''cleanout'', location = ''Agent''\<rparr>])
     = Inl TypeError"
    by (simp add: status_of_last)
  then have "map_doc \<lparr>type = ''job'', workflow = ''wf'', states = array
      [\<lparr>oldstate = ''exhausted'', newstate = ''cleanout'', location = ''Agent''\<rparr>]\<rparr>
     = (Some TypeError, [])"
    by (simp add: map_doc_job)
  with s show ?thesis by simp
qed

text \<open>
  Claim C3, as amended: when the last transition enters \<^verbatim>\<open>exhausted\<close>, its own
  \<^verbatim>\<open>oldstate\<close> selects \<^verbatim>\<open>failure_exception\<close>, \<^verbatim>\<open>failure_submit\<close> or
  \<^verbatim>\<open>failure_create\<close>, and any other value raises the invalid-transition error.
  When it enters \<^verbatim>\<open>cleanout\<close> from \<^verbatim>\<open>exhausted\<close> and the history has at least
  two transitions, the same mapping is applied to the \<^verbatim>\<open>oldstate\<close> of the
  second-to-last transition; when the history has that one transition only, the
  classification fails with a \<open>TypeError\<close>. \<^verbatim>\<open>cleanout\<close> from \<^verbatim>\<open>success\<close> is
  \<^verbatim>\<open>success\<close>, and \<^verbatim>\<open>cleanout\<close> from anything else raises the
  invalid-transition error.
\<close>

theorem failure_by_lookback:
  assumes "ts \<noteq> []"
  shows "(newstate (last ts) = ''exhausted'' \<longrightarrow>
            status_of (array ts) =
              (if oldstate (last ts) = ''jobfailed'' then Inr ''failure_exception''
               else if oldstate (last ts) = ''submitfailed'' then Inr ''failure_submit''
               else if oldstate (last ts) = ''createfailed'' then Inr ''failure_create''
               else Inl InvalidTransition))
       \<and> (newstate (last ts) = ''cleanout'' \<and> oldstate (last ts) = ''exhausted''
            \<and> 2 \<le> length ts \<longrightarrow>
            status_of (array ts) =
              (if oldstate (ts ! (length ts - 2)) = ''jobfailed'' then Inr ''failure_exception''
               else if oldstate (ts ! (length ts - 2)) = ''submitfailed'' then Inr ''failure_submit''
               else if oldstate (ts ! (length ts - 2)) = ''createfailed'' then Inr ''failure_create''
               else Inl InvalidTransition))
       \<and> (newstate (last ts) = ''cleanout'' \<and> oldstate (last ts) = ''exhausted''
            \<and> length ts < 2 \<longrightarrow>
            status_of (array ts) = Inl TypeError)
       \<and> (newstate (last ts) = ''cleanout'' \<and> oldstate (last ts) = ''success'' \<longrightarrow>
            status_of (array ts) = Inr ''success'')
       \<and> (newstate (last ts) = ''cleanout'' \<and> oldstate (last ts) \<noteq> ''success''
            \<and> oldstate (last ts) \<noteq> ''exhausted'' \<longrightarrow>
            status_of (array ts) = Inl InvalidTransition)"
proof (intro conjI impI)
  assume "newstate (last ts) = ''exhausted''"
  then show "status_of (array ts) =
      (if oldstate (last ts) = ''jobfailed'' then Inr ''failure_exception''
       else if oldstate (last ts) = ''submitfailed'' then Inr ''failure_submit''
       else if oldstate (last ts) = ''createfailed'' then Inr ''failure_create''
       else Inl InvalidTransition)"
    by (simp add: status_of_last [OF assms])
next
  assume "newstate (last ts) = ''cleanout'' \<and> oldstate (last ts) = ''exhausted''
    \<and> 2 \<le> length ts"
  then show "status_of (array ts) =
      (if oldstate (ts ! (length ts - 2)) = ''jobfailed'' then Inr ''failure_exception''
       else if oldstate (ts ! (length ts - 2)) = ''submitfailed'' then Inr ''failure_submit''
       else if oldstate (ts ! (length ts - 2)) = ''createfailed'' then Inr ''failure_create''
       else Inl InvalidTransition)"
    by (simp add: status_of_cleanout_exhausted)
next
  assume "newstate (last ts) = ''cleanout'' \<and> oldstate (last ts) = ''exhausted''
    \<and> length ts < 2"
  then show "status_of (array ts) = Inl TypeError"
    by (simp add: status_of_last [OF assms])
next
  assume "newstate (last ts) = ''cleanout'' \<and> oldstate (last ts) = ''success''"
  then show "status_of (array ts) = Inr ''success''"
    by (simp add: status_of_last [OF assms])
next
  assume "newstate (last ts) = ''cleanout'' \<and> oldstate (last ts) \<noteq> ''success''
    \<and> oldstate (last ts) \<noteq> ''exhausted''"
  then show "status_of (array ts) = Inl InvalidTransition"
    by (simp add: status_of_last [OF assms])
qed

theorem failure_by_lookback_witness:
  "status_of (array
      [\<lparr>oldstate = ''complete'', newstate = ''jobfailed'', location = ''siteA''\<rparr>,
       \<lparr>oldstate = ''jobfailed'', newstate = ''exhausted'', location = ''Agent''\<rparr>])
     = Inr ''failure_exception''
   \<and> status_of (array
      [\<lparr>oldstate = ''submitfailed'', newstate = ''exhausted'', location = ''siteX''\<rparr>,
       \<lparr>oldstate = ''exhausted'', newstate = ''cleanout'', location = ''siteY''\<rparr>])
     = Inr ''failure_submit''
   \<and> status_of (array
      [\<lparr>oldstate = ''complete'', newstate = ''success'', location = ''siteA''\<rparr>,
       \<lparr>oldstate = ''success'', newstate = ''cleanout'', location = ''Agent''\<rparr>])
     = Inr ''success''
   \<and> status_of (array
      [\<lparr>oldstate = ''killed'', newstate = ''cleanout'', location = ''Agent''\<rparr>])
     = Inl InvalidTransition
   \<and> status_of (array
      [\<lparr>oldstate = ''exhausted'', newstate = ''cleanout'', location = ''siteY''\<rparr>])
     = Inl TypeError"
proof -
  have "status_of (array
      [\<lparr>oldstate = ''complete'', newstate = ''jobfailed'', location = ''siteA''\<rparr>,
       \<lparr>oldstate = ''jobfailed'', newstate = ''exhausted'', location = ''Agent''\<rparr>])
     = Inr ''failure_exception''"
    using failure_by_lookback
      [of "[\<lparr>oldstate = ''complete'', newstate = ''jobfailed'', location = ''siteA''\<rparr>,
            \<lparr>oldstate = ''jobfailed'', newstate = ''exhausted'', location = ''Agent''\<rparr>]"]
    by simp
  moreover have "status_of (array
      [\<lparr>oldstate = ''submitfailed'', newstate = ''exhausted'', location = ''siteX''\<rparr>,
       \<lparr>oldstate = ''exhausted'', newstate = ''cleanout'', location = ''siteY''\<rparr>])
     = Inr ''failure_submit''"
    using failure_by_lookback
      [of "[\<lparr>oldstate = ''submitfailed'', newstate = ''exhausted'', location = ''siteX''\<rparr>,
            \<lparr>oldstate = ''exhausted'', newstate = ''cleanout'', location = ''siteY''\<rparr>]"]
    by simp
  moreover have "status_of (array
      [\<lparr>oldstate = ''complete'', newstate = ''success'', location = ''siteA''\<rparr>,
       \<lparr>oldstate = ''success'', newstate = ''cleanout'', location = ''Agent''\<rparr>])
     = Inr ''success''"
    using failure_by_lookback
      [of "[\<lparr>oldstate = ''complete'', newstate = ''success'', location = ''siteA''\<rparr>,
            \<lparr>oldstate = ''success'', newstate = ''cleanout'', location = ''Agent''\<rparr>]"]
    by simp
  moreover have "status_of (array
      [\<lparr>oldstate = ''killed'', newstate = ''cleanout'', location = ''Agent''\<rparr>])
     = Inl InvalidTransition"
    using failure_by_lookback
      [of "[\<lparr>oldstate = ''killed'', newstate = ''cleanout'', location = ''Agent''\<rparr>]"]
    by simp
  moreover have "status_of (array
      [\<lparr>oldstate = ''exhausted'', newstate = ''cleanout'', location = ''siteY''\<rparr>])
     = Inl TypeError"
    using failure_by_lookback
      [of "[\<lparr>oldstate = ''exhausted'', newstate = ''cleanout'', location = ''siteY''\<rparr>]"]
    by simp
  ultimately show ?thesis by simp
qed

text \<open>
  Claim C4: in a history of at least two transitions whose last one enters
  \<^verbatim>\<open>executing\<close>, the \<^verbatim>\<open>oldstate\<close> of the second-to-last transition decides:
  \<^verbatim>\<open>new\<close> gives \<^verbatim>\<open>submitted_first\<close>, \<^verbatim>\<open>jobcooloff\<close> gives
  \<^verbatim>\<open>submitted_retry\<close>, anything else raises the invalid-transition error. The
  \<^verbatim>\<open>oldstate\<close> of the last transition is not consulted: replacing it by any
  \<open>x\<close> leaves the status as it is.
\<close>

theorem executing_by_previous_oldstate:
  assumes "2 \<le> length ts" and "newstate (last ts) = ''executing''"
  shows "status_of (array ts) =
      (if oldstate (ts ! (length ts - 2)) = ''new'' then Inr ''submitted_first''
       else if oldstate (ts ! (length ts - 2)) = ''jobcooloff'' then Inr ''submitted_retry''
       else Inl InvalidTransition)
    \<and> (\<forall>x. status_of (array (butlast ts @ [(last ts)\<lparr>oldstate := x\<rparr>]))
            = status_of (array ts))"
proof -
  have 1: "status_of (array ts) =
      (if oldstate (ts ! (length ts - 2)) = ''new'' then Inr ''submitted_first''
       else if oldstate (ts ! (length ts - 2)) = ''jobcooloff'' then Inr ''submitted_retry''
       else Inl InvalidTransition)"
    using assms by (rule status_of_executing)
  have 2: "status_of (array (butlast ts @ [(last ts)\<lparr>oldstate := x\<rparr>]))
      = status_of (array ts)" for x
  proof -
    let ?us = "butlast ts @ [(last ts)\<lparr>oldstate := x\<rparr>]"
    have len: "length ?us = length ts" using assms(1) by simp
    have n: "?us ! (length ts - 2) = ts ! (length ts - 2)"
      using assms(1) by (simp add: nth_append nth_butlast)
    have "status_of (array ?us) =
      (if oldstate (?us ! (length ?us - 2)) = ''new'' then Inr ''submitted_first''
       else if oldstate (?us ! (length ?us - 2)) = ''jobcooloff'' then Inr ''submitted_retry''
       else Inl InvalidTransition)"
      by (rule status_of_executing) (use assms in simp_all)
    then show ?thesis unfolding len n 1 .
  qed
  from 1 2 show ?thesis by blast
qed

theorem executing_by_previous_oldstate_witness:
  "status_of (array
      [\<lparr>oldstate = ''new'', newstate = ''created'', location = ''Agent''\<rparr>,
       \<lparr>oldstate = ''created'', newstate = ''executing'', location = ''siteA''\<rparr>])
     = Inr ''submitted_first''"
  using executing_by_previous_oldstate
    [of "[\<lparr>oldstate = ''new'', newstate = ''created'', location = ''Agent''\<rparr>,
          \<lparr>oldstate = ''created'', newstate = ''executing'', location = ''siteA''\<rparr>]"]
  by simp

text \<open>
  Claim C5: when the last transition enters \<^verbatim>\<open>created\<close>, its \<^verbatim>\<open>oldstate\<close>
  decides: \<^verbatim>\<open>new\<close> gives \<^verbatim>\<open>queued_first\<close>, \<^verbatim>\<open>jobcooloff\<close> gives
  \<^verbatim>\<open>queued_retry\<close>, anything else raises the invalid-transition error. The
  history of the single transition from \<^verbatim>\<open>new\<close> to \<^verbatim>\<open>created\<close> at the
  location \<open>L\<close> is emitted as \<^verbatim>\<open>queued_first\<close> with the site \<open>L\<close> if \<open>L\<close>
  is not \<^verbatim>\<open>"Agent"\<close>, and \<^verbatim>\<open>"Agent"\<close> otherwise.
\<close>

theorem created_by_last_oldstate:
  "(ts \<noteq> [] \<and> newstate (last ts) = ''created'' \<longrightarrow>
      status_of (array ts) =
        (if oldstate (last ts) = ''new'' then Inr ''queued_first''
         else if oldstate (last ts) = ''jobcooloff'' then Inr ''queued_retry''
         else Inl InvalidTransition))
   \<and> map_doc \<lparr>type = ''job'', workflow = w, states = array
         [\<lparr>oldstate = ''new'', newstate = ''created'', location = L\<rparr>]\<rparr>
       = (None, [((w, ''queued_first'', Some (if L \<noteq> ''Agent'' then L else ''Agent'')), 1)])"
proof -
  have 1: "status_of (array ts) =
        (if oldstate (last ts) = ''new'' then Inr ''queued_first''
         else if oldstate (last ts) = ''jobcooloff'' then Inr ''queued_retry''
         else Inl InvalidTransition)"
    if "ts \<noteq> []" and "newstate (last ts) = ''created''"
    using that by (simp add: status_of_last)
  have 2: "status_of (array [\<lparr>oldstate = ''new'', newstate = ''created'', location = L\<rparr>])
      = Inr ''queued_first''"
    by (simp add: status_of_last)
  have 3: "site_of (array [\<lparr>oldstate = ''new'', newstate = ''created'', location = L\<rparr>])
      = Some (if L \<noteq> ''Agent'' then L else ''Agent'')"
    by (simp add: site_of_array)
  from 1 2 3 show ?thesis by (simp add: map_doc_job)
qed

theorem created_by_last_oldstate_witness:
  "status_of (array
      [\<lparr>oldstate = ''jobfailed'', newstate = ''jobcooloff'', location = ''siteA''\<rparr>,
       \<lparr>oldstate = ''jobcooloff'', newstate = ''created'', location = ''Agent''\<rparr>])
     = Inr ''queued_retry''
   \<and> map_doc \<lparr>type = ''job'', workflow = ''wf'', states = array
         [\<lparr>oldstate = ''new'', newstate = ''created'', location = ''siteA''\<rparr>]\<rparr>
       = (None, [((''wf'', ''queued_first'', Some ''siteA''), 1)])"
  using created_by_last_oldstate
    [of "[\<lparr>oldstate = ''jobfailed'', newstate = ''jobcooloff'', location = ''siteA''\<rparr>,
          \<lparr>oldstate = ''jobcooloff'', newstate = ''created'', location = ''Agent''\<rparr>]"
        "''wf''" "''siteA''"]
  by simp

text \<open>
  Claim C10: in a history of at least two transitions whose last one enters
  \<^verbatim>\<open>cleanout\<close> from \<^verbatim>\<open>exhausted\<close>, the status depends on the
  \<^verbatim>\<open>oldstate\<close> of the second-to-last transition alone. Its \<^verbatim>\<open>newstate\<close> is
  never inspected: replacing it by any \<open>n\<close> leaves the status as it is, so the
  mapping applies also when that transition did not enter \<^verbatim>\<open>exhausted\<close>.
\<close>

theorem cleanout_ignores_previous_newstate:
  assumes "2 \<le> length ts" and "newstate (last ts) = ''cleanout''"
    and "oldstate (last ts) = ''exhausted''"
  shows "status_of (array ts) =
      (if oldstate (ts ! (length ts - 2)) = ''jobfailed'' then Inr ''failure_exception''
       else if oldstate (ts ! (length ts - 2)) = ''submitfailed'' then Inr ''failure_submit''
       else if oldstate (ts ! (length ts - 2)) = ''createfailed'' then Inr ''failure_create''
       else Inl InvalidTransition)
    \<and> (\<forall>n. status_of (array (ts[length ts - 2 := (ts ! (length ts - 2))\<lparr>newstate := n\<rparr>]))
            = status_of (array ts))"
proof -
  have 1: "status_of (array ts) =
      (if oldstate (ts ! (length ts - 2)) = ''jobfailed'' then Inr ''failure_exception''
       else if oldstate (ts ! (length ts - 2)) = ''submitfailed'' then Inr ''failure_submit''
       else if oldstate (ts ! (length ts - 2)) = ''createfailed'' then Inr ''failure_create''
       else Inl InvalidTransition)"
    using assms by (rule status_of_cleanout_exhausted)
  have 2: "status_of (array (ts[length ts - 2 := (ts ! (length ts - 2))\<lparr>newstate := n\<rparr>]))
      = status_of (array ts)" for n
  proof -
    let ?us = "ts[length ts - 2 := (ts ! (length ts - 2))\<lparr>newstate := n\<rparr>]"
    have len: "length ?us = length ts" by simp
    have "ts \<noteq> []" and "length ts - 2 \<noteq> length ts - 1"
      using assms(1) by auto
    then have l: "last ?us = last ts"
      by (metis last_list_update)
    have o: "oldstate (?us ! (length ts - 2)) = oldstate (ts ! (length ts - 2))"
      using assms(1) by simp
    have "status_of (array ?us) =
      (if oldstate (?us ! (length ?us - 2)) = ''jobfailed'' then Inr ''failure_exception''
       else if oldstate (?us ! (length ?us - 2)) = ''submitfailed'' then Inr ''failure_submit''
       else if oldstate (?us ! (length ?us - 2)) = ''createfailed'' then Inr ''failure_create''
       else Inl InvalidTransition)"
      by (rule status_of_cleanout_exhausted) (use assms l in simp_all)
    then show ?thesis unfolding len o 1 .
  qed
  from 1 2 show ?thesis by blast
qed

theorem cleanout_ignores_previous_newstate_witness:
  "status_of (array
      [\<lparr>oldstate = ''jobfailed'', newstate = ''jobcooloff'', location = ''siteA''\<rparr>,
       \<lparr>oldstate = ''exhausted'', newstate = ''cleanout'', location = ''Agent''\<rparr>])
     = Inr ''failure_exception''"
  using cleanout_ignores_previous_newstate
    [of "[\<lparr>oldstate = ''jobfailed'', newstate = ''jobcooloff'', location = ''siteA''\<rparr>,
          \<lparr>oldstate = ''exhausted'', newstate = ''cleanout'', location = ''Agent''\<rparr>]"]
  by simp

subsection \<open>What is emitted\<close>

text \<open>
  Claim C6: a document of type \<^verbatim>\<open>"job"\<close> whose classification succeeds emits
  exactly one row, with the key of workflow, status and resolved site and the count 1;
  a document of any other type emits nothing.
\<close>

theorem one_row_per_job:
  "(type d = ''job'' \<and> status_of (states d) = Inr status \<longrightarrow>
      map_doc d = (None, [((workflow d, status, site_of (states d)), 1)]))
   \<and> (type d \<noteq> ''job'' \<longrightarrow> map_doc d = (None, []))"
proof (intro conjI impI)
  assume "type d = ''job'' \<and> status_of (states d) = Inr status"
  then show "map_doc d = (None, [((workflow d, status, site_of (states d)), 1)])"
    by (simp add: map_doc_job)
next
  assume "type d \<noteq> ''job''"
  then show "map_doc d = (None, [])"
    by (simp add: map_doc_def)
qed

theorem one_row_per_job_witness:
  "map_doc \<lparr>type = ''job'', workflow = ''wf'', states = array
      [\<lparr>oldstate = ''new'', newstate = ''created'', location = ''Agent''\<rparr>,
       \<lparr>oldstate = ''created'', newstate = ''executing'', location = ''siteA''\<rparr>]\<rparr>
     = (None, [((''wf'', ''submitted_first'', Some ''siteA''), 1)])
   \<and> map_doc \<lparr>type = ''workflow'', workflow = ''wf'', states = []\<rparr> = (None, [])"
proof -
  let ?d = "\<lparr>type = ''job'', workflow = ''wf'', states = array
      [\<lparr>oldstate = ''new'', newstate = ''created'', location = ''Agent''\<rparr>,
       \<lparr>oldstate = ''created'', newstate = ''executing'', location = ''siteA''\<rparr>]\<rparr>"
  have s: "status_of (states ?d) = Inr ''submitted_first''"
    by (simp add: status_of_last)
  have t: "site_of (states ?d) = Some ''siteA''"
    by (simp add: site_of_array)
  have "map_doc ?d = (None, [((''wf'', ''submitted_first'', Some ''siteA''), 1)])"
    using one_row_per_job [of ?d "''submitted_first''"] s t by simp
  moreover have "map_doc \<lparr>type = ''workflow'', workflow = ''wf'', states = []\<rparr> = (None, [])"
    using one_row_per_job [of "\<lparr>type = ''workflow'', workflow = ''wf'', states = []\<rparr>"]
    by simp
  ultimately show ?thesis by simp
qed

text \<open>
  Claim C9: when \<^verbatim>\<open>statusMap\<close> throws \<^verbatim>\<open>"not valid transition"\<close> for a job
  document, nothing is emitted for it: the error comes before any row.
\<close>

theorem InvalidTransition_emits_nothing:
  assumes "type d = ''job''" and "status_of (states d) = Inl InvalidTransition"
  shows "map_doc d = (Some InvalidTransition, [])"
  using assms by (simp add: map_doc_job)

theorem InvalidTransition_emits_nothing_witness:
  "map_doc \<lparr>type = ''job'', workflow = ''wf'', states = array
      [\<lparr>oldstate = ''bogus'', newstate = ''created'', location = ''siteA''\<rparr>]\<rparr>
     = (Some InvalidTransition, [])"
proof -
  let ?d = "\<lparr>type = ''job'', workflow = ''wf'', states = array
      [\<lparr>oldstate = ''bogus'', newstate = ''created'', location = ''siteA''\<rparr>]\<rparr>"
  have s: "status_of (states ?d) = Inl InvalidTransition"
    by (simp add: status_of_last)
  show ?thesis
    using InvalidTransition_emits_nothing [of ?d] s by simp
qed

subsection \<open>Histories that are too short\<close>

text \<open>
  Claim C7 says that a job document whose single transition, at position 0, enters
  \<^verbatim>\<open>executing\<close> fails with the invalid-transition error (or with
  \<open>InsufficientHistory\<close>) and that no transition at position \<open>-1\<close> is read. The
  function has no check of the position: it reads \<^verbatim>\<open>doc['states'][-1]\<close>, which is
  \<^verbatim>\<open>undefined\<close>, and the read of its \<^verbatim>\<open>oldstate\<close> throws a \<open>TypeError\<close>.
\<close>

theorem single_executing_counterexample:
  "map_doc \<lparr>type = ''job'', workflow = ''wf'', states = array
      [\<lparr>oldstate = ''created'', newstate = ''executing'', location = ''siteA''\<rparr>]\<rparr>
     = (Some TypeError, [])
   \<and> fst (map_doc \<lparr>type = ''job'', workflow = ''wf'', states = array
      [\<lparr>oldstate = ''created'', newstate = ''executing'', location = ''siteA''\<rparr>]\<rparr>)
     \<noteq> Some InvalidTransition
   \<and> fst (map_doc \<lparr>type = ''job'', workflow = ''wf'', states = array
      [\<lparr>oldstate = ''created'', newstate = ''executing'', location = ''siteA''\<rparr>]\<rparr>)
     \<noteq> Some InsufficientHistory"
  by (simp add: map_doc_job status_of_last)

text \<open>
  Claim C7, as amended: a job document whose single transition, at position 0, enters
  \<^verbatim>\<open>executing\<close> has no entry at the position before the last one, the function
  fails with a \<open>TypeError\<close>, and nothing is emitted.
\<close>

theorem single_executing_raises_TypeError:
  assumes "type d = ''job''" and "states d = array [t]" and "newstate t = ''executing''"
  shows "states_at (states d) (int (lastStateIndex (for_in (states d) init_vars)) - 1) = None
    \<and> map_doc d = (Some TypeError, [])"
  using assms by (simp add: map_doc_job status_of_last lastStateIndex_array states_at_array)

theorem single_executing_raises_TypeError_witness:
  "map_doc \<lparr>type = ''job'', workflow = ''wf'', states = array
      [\<lparr>oldstate = ''created'', newstate = ''executing'', location = ''siteA''\<rparr>]\<rparr>
     = (Some TypeError, [])"
  using single_executing_raises_TypeError
    [of "\<lparr>type = ''job'', workflow = ''wf'', states = array
      [\<lparr>oldstate = ''created'', newstate = ''executing'', location = ''siteA''\<rparr>]\<rparr>"
     "\<lparr>oldstate = ''created'', newstate = ''executing'', location = ''siteA''\<rparr>"]
  by simp

text \<open>
  Claim C8 says that a job document with no states fails with the error
  \<open>EmptyHistory\<close>. The function has no such error: the loop runs zero times,
  \<^verbatim>\<open>lastStateIndex\<close> stays 0, \<^verbatim>\<open>doc['states'][0]\<close> is \<^verbatim>\<open>undefined\<close>, and the
  read of its \<^verbatim>\<open>newstate\<close> throws a \<open>TypeError\<close>.
\<close>

theorem empty_states_counterexample:
  "map_doc \<lparr>type = ''job'', workflow = ''wf'', states = []\<rparr> = (Some TypeError, [])
   \<and> fst (map_doc \<lparr>type = ''job'', workflow = ''wf'', states = []\<rparr>) \<noteq> Some EmptyHistory"
  by (simp add: map_doc_def init_vars_def statusMap_def states_at_def)

text \<open>
  Claim C8, as amended: a job document with no states fails with a \<open>TypeError\<close>,
  and nothing is emitted.
\<close>

theorem empty_states_raises_TypeError:
  assumes "type d = ''job''" and "states d = []"
  shows "map_doc d = (Some TypeError, [])"
  using assms by (simp add: map_doc_def init_vars_def statusMap_def states_at_def)

theorem empty_states_raises_TypeError_witness:
  "map_doc \<lparr>type = ''job'', workflow = ''wf'', states = []\<rparr> = (Some TypeError, [])"
  using empty_states_raises_TypeError [of "\<lparr>type = ''job'', workflow = ''wf'', states = []\<rparr>"]
  by simp

end
